theory Spec2Isabelle
  imports Main
begin

section \<open>Data model of the paginator (package botutil)\<close>

text \<open>
  The chat platform library (discordgo) is not part of the repository. Its types are
  modelled with the fields the paginator reads or writes, and its session as a record of
  functions that answer each call. Every answer may depend on the whole world at the time
  of the call (the embeds on the heap and all earlier calls with their answers), so any
  sequence of successes and failures is the behaviour of some session. The session pointer
  of a paginator is taken to be non-nil, and a send or edit that returns no error to
  return a message.
\<close>

record MessageEmbedFooter =
  Text :: string
  IconURL :: string
  ProxyIconURL :: string

record MessageEmbed =
  Title :: string
  Description :: string
  Footer :: "MessageEmbedFooter option"

record Message =
  ID :: string

text \<open>
  A page is a \<^verbatim>\<open>*dg.MessageEmbed\<close>: a pointer, \<open>None\<close> for nil and \<open>Some a\<close> for the
  embed stored at address \<open>a\<close>. Two pages may hold the same address.
\<close>

type_synonym embed_ptr = "nat option"

datatype call =
    Send string embed_ptr
  | Edit string string embed_ptr
  | ReactionAdd string string string
  | ReactionsRemoveAll string string

datatype reply = Failed string | Done | Delivered Message

record world =
  embeds :: "nat \<Rightarrow> MessageEmbed"
  events :: "(call \<times> reply) list"

record Session =
  ChannelMessageSendComplex :: "world \<Rightarrow> string \<Rightarrow> embed_ptr \<Rightarrow> string + Message"
  ChannelMessageEditComplex :: "world \<Rightarrow> string \<Rightarrow> string \<Rightarrow> embed_ptr \<Rightarrow> string + Message"
  MessageReactionAdd :: "world \<Rightarrow> string \<Rightarrow> string \<Rightarrow> string \<Rightarrow> string option"
  MessageReactionsRemoveAll :: "world \<Rightarrow> string \<Rightarrow> string \<Rightarrow> string option"

record ControlEmojis =
  toBegin :: string
  backwards :: string
  forwards :: string
  toEnd :: string
  stop :: string

text \<open>
  Go's \<^verbatim>\<open>int\<close> (64 bits, two's complement) is an \<open>int\<close> here, and every sum or difference
  the source computes on one goes through \<open>wrap_int\<close>, which wraps it into
  \<open>[-2^63, 2^63)\<close> as the machine does.
\<close>

definition wrap_int :: "int \<Rightarrow> int" where
  "wrap_int i = (i + 9223372036854775808) mod 18446744073709551616 - 9223372036854775808"

text \<open>
  The struct \<^verbatim>\<open>Paginator\<close>. The field \<^verbatim>\<open>s\<close> of the source is \<open>sess\<close> here, \<^verbatim>\<open>index\<close> is a
  Go \<^verbatim>\<open>int\<close>, \<open>user\<close> is a pointer and \<open>timeOut\<close> a number of nanoseconds.
\<close>

record Paginator =
  message :: "Message option"
  channelID :: string
  pages :: "embed_ptr list"
  controlEmojis :: ControlEmojis
  index :: int
  sess :: Session
  reactionsRemoved :: bool
  user :: "nat option"
  timeOut :: int
  active :: bool

text \<open>
  An \<^verbatim>\<open>error\<close> value is either the package's own \<^verbatim>\<open>*paginatorError\<close> (failing function,
  failing reason) or an error of the platform library, kept as its text.
\<close>

datatype error =
    paginatorError string string
  | externalError string

datatype panic = IndexOutOfRange | NilDereference

text \<open>
  A method with result type \<^verbatim>\<open>error\<close> either returns (nil is \<open>None\<close>) or panics. Each
  method below returns its outcome together with the paginator and the world as the method
  left them, also when it panics.
\<close>

datatype outcome = Return "error option" | Panicked panic

definition record_call :: "call \<Rightarrow> reply \<Rightarrow> world \<Rightarrow> world" where
  "record_call c r w = w\<lparr>events := events w @ [(c, r)]\<rparr>"

definition NewPaginator ::
  "Session \<Rightarrow> string \<Rightarrow> nat option \<Rightarrow> ControlEmojis \<Rightarrow> int \<Rightarrow> Paginator" where
  "NewPaginator s0 channel u emojis t =
     \<lparr>message = None, channelID = channel, pages = [], controlEmojis = emojis, index = 0,
      sess = s0, reactionsRemoved = False, user = u, timeOut = t, active = False\<rparr>"

text \<open>The index expression \<^verbatim>\<open>p.pages[p.index]\<close>: out of range it panics.\<close>

definition current_page :: "Paginator \<Rightarrow> embed_ptr option" where
  "current_page p =
     (if 0 \<le> index p \<and> index p < int (length (pages p))
      then Some (pages p ! nat (index p)) else None)"

section \<open>Navigation and synchronisation\<close>

text \<open>
  \<^verbatim>\<open>updatePaginatorMessage\<close>. The two strings of the edit are the arguments of
  \<^verbatim>\<open>dg.NewMessageEdit\<close> in the order the source passes them: \<^verbatim>\<open>p.message.ID\<close>, then
  \<^verbatim>\<open>p.channelID\<close>. Reading \<^verbatim>\<open>p.message.ID\<close> panics while no message is recorded.
\<close>

definition updatePaginatorMessage ::
  "Paginator \<Rightarrow> world \<Rightarrow> embed_ptr \<Rightarrow> outcome \<times> Paginator \<times> world" where
  "updatePaginatorMessage p w e =
     (case message p of
        None \<Rightarrow> (Panicked NilDereference, p, w)
      | Some m \<Rightarrow>
          (case ChannelMessageEditComplex (sess p) w (ID m) (channelID p) e of
             Inl err \<Rightarrow>
               (Return (Some (externalError err)), p,
                record_call (Edit (ID m) (channelID p) e) (Failed err) w)
           | Inr m' \<Rightarrow>
               (Return None, p,
                record_call (Edit (ID m) (channelID p) e) (Delivered m') w)))"

text \<open>
  The tail \<^verbatim>\<open>return p.updatePaginatorMessage(p.pages[p.index])\<close> shared by the four
  navigation methods: the argument is evaluated first.
\<close>

definition show_current :: "Paginator \<Rightarrow> world \<Rightarrow> outcome \<times> Paginator \<times> world" where
  "show_current p w =
     (case current_page p of
        None \<Rightarrow> (Panicked IndexOutOfRange, p, w)
      | Some e \<Rightarrow> updatePaginatorMessage p w e)"

definition nextPage :: "Paginator \<Rightarrow> world \<Rightarrow> outcome \<times> Paginator \<times> world" where
  "nextPage p w =
     (if index p = wrap_int (int (length (pages p)) + 1)
      then (Return (Some (paginatorError ''nextPage'' ''Page index is already max.'')), p, w)
      else show_current (p\<lparr>index := wrap_int (index p + 1)\<rparr>) w)"

definition previousPage :: "Paginator \<Rightarrow> world \<Rightarrow> outcome \<times> Paginator \<times> world" where
  "previousPage p w =
     (if index p = 0
      then (Return (Some (paginatorError ''previousPage'' ''Page index is north.'')), p, w)
      else show_current (p\<lparr>index := wrap_int (index p - 1)\<rparr>) w)"

definition firstPage :: "Paginator \<Rightarrow> world \<Rightarrow> outcome \<times> Paginator \<times> world" where
  "firstPage p w =
     (if index p = 0
      then (Return (Some (paginatorError ''previousPage'' ''Page index is north.'')), p, w)
      else show_current (p\<lparr>index := 0\<rparr>) w)"

definition lastPage :: "Paginator \<Rightarrow> world \<Rightarrow> outcome \<times> Paginator \<times> world" where
  "lastPage p w =
     (if index p = 0
      then (Return (Some (paginatorError ''previousPage'' ''Page index is already max.'')), p, w)
      else show_current (p\<lparr>index := wrap_int (int (length (pages p)) - 1)\<rparr>) w)"

section \<open>Lifecycle\<close>

definition close :: "Paginator \<Rightarrow> world \<Rightarrow> outcome \<times> Paginator \<times> world" where
  "close p w =
     (let p1 = p\<lparr>active := False\<rparr> in
      if reactionsRemoved p1 then (Return None, p1, w)
      else
        (case message p1 of
           None \<Rightarrow> (Panicked NilDereference, p1, w)
         | Some m \<Rightarrow>
             (case MessageReactionsRemoveAll (sess p1) w (channelID p1) (ID m) of
                None \<Rightarrow>
                  (Return None, p1\<lparr>reactionsRemoved := True\<rparr>,
                   record_call (ReactionsRemoveAll (channelID p1) (ID m)) Done w)
              | Some err \<Rightarrow>
                  (Return (Some (externalError err)), p1,
                   record_call (ReactionsRemoveAll (channelID p1) (ID m)) (Failed err) w))))"

text \<open>
  \<^verbatim>\<open>Run\<close>. After the message is sent the method waits for the time-out and then returns
  what \<^verbatim>\<open>close\<close> returns: the channel of \<^verbatim>\<open>time.After\<close> always delivers, so the loop
  body runs once. The wait itself has no effect on the paginator or on the platform.
\<close>

definition Run :: "Paginator \<Rightarrow> world \<Rightarrow> outcome \<times> Paginator \<times> world" where
  "Run p w =
     (if active p
      then (Return (Some (paginatorError ''Run'' ''Paginator is already running.'')), p, w)
      else if length (pages p) = 0
      then (Return (Some (paginatorError ''Run'' ''No pages found in paginator.pages'')), p, w)
      else
        (case current_page p of
           None \<Rightarrow> (Panicked IndexOutOfRange, p, w)
         | Some e \<Rightarrow>
             (case ChannelMessageSendComplex (sess p) w (channelID p) e of
                Inl err \<Rightarrow>
                  (Return (Some (paginatorError ''Run'' err)), p,
                   record_call (Send (channelID p) e) (Failed err) w)
              | Inr msg \<Rightarrow>
                  close (p\<lparr>message := Some msg, active := True\<rparr>)
                    (record_call (Send (channelID p) e) (Delivered msg) w))))"

text \<open>
  \<^verbatim>\<open>Add\<close>. The function \<^verbatim>\<open>verifyEmbed\<close> is not among the source files; it is a
  parameter here.
\<close>

definition Add ::
  "(world \<Rightarrow> embed_ptr \<Rightarrow> error option) \<Rightarrow> Paginator \<Rightarrow> world \<Rightarrow> embed_ptr \<Rightarrow>
   outcome \<times> Paginator \<times> world" where
  "Add verifyEmbed p w e =
     (case verifyEmbed w e of
        Some err \<Rightarrow> (Return (Some err), p, w)
      | None \<Rightarrow> (Return None, p\<lparr>pages := pages p @ [e]\<rparr>, w))"

text \<open>
  \<^verbatim>\<open>addReactions\<close> walks the fields of \<^verbatim>\<open>ControlEmojis\<close> by reflection, in the order of
  their declaration, and stops at the first reaction the platform refuses.
\<close>

definition emoji_fields :: "ControlEmojis \<Rightarrow> string list" where
  "emoji_fields c = [toBegin c, backwards c, forwards c, toEnd c, stop c]"

fun addReactions_from :: "Paginator \<Rightarrow> string list \<Rightarrow> world \<Rightarrow> outcome \<times> Paginator \<times> world" where
  "addReactions_from p [] w = (Return None, p, w)"
| "addReactions_from p (e # es) w =
     (case message p of
        None \<Rightarrow> (Panicked NilDereference, p, w)
      | Some m \<Rightarrow>
          (case MessageReactionAdd (sess p) w (channelID p) (ID m) e of
             Some err \<Rightarrow>
               (Return (Some (externalError err)), p,
                record_call (ReactionAdd (channelID p) (ID m) e) (Failed err) w)
           | None \<Rightarrow>
               addReactions_from p es
                 (record_call (ReactionAdd (channelID p) (ID m) e) Done w)))"

definition addReactions :: "Paginator \<Rightarrow> world \<Rightarrow> outcome \<times> Paginator \<times> world" where
  "addReactions p w = addReactions_from p (emoji_fields (controlEmojis p)) w"

section \<open>Page numbers\<close>

text \<open>The verb \<^verbatim>\<open>%d\<close> of \<^verbatim>\<open>fmt.Sprintf\<close>: decimal digits, with a minus sign below zero.\<close>

definition digit :: "nat \<Rightarrow> char" where
  "digit d = ''0123456789'' ! d"

function show_nat :: "nat \<Rightarrow> string" where
  "show_nat n = (if n < 10 then [digit n] else show_nat (n div 10) @ [digit (n mod 10)])"
  by pat_completeness auto
termination
  by (relation "measure (\<lambda>n. n)") auto

definition show_int :: "int \<Rightarrow> string" where
  "show_int i = (if i < 0 then CHR ''-'' # show_nat (nat (- i)) else show_nat (nat i))"

definition page_number :: "Paginator \<Rightarrow> MessageEmbedFooter" where
  "page_number p =
     \<lparr>Text = show_int (wrap_int (index p + 1)) @ ''/'' @ show_int (int (length (pages p))),
      IconURL = [], ProxyIconURL = []\<rparr>"

text \<open>
  The loop of \<^verbatim>\<open>setPageNumber\<close> over the remaining pages: the assignment through a nil
  page panics, with the pages before it already written.
\<close>

fun setFooters :: "MessageEmbedFooter \<Rightarrow> embed_ptr list \<Rightarrow> world \<Rightarrow> outcome \<times> world" where
  "setFooters f [] w = (Return None, w)"
| "setFooters f (None # ps) w = (Panicked NilDereference, w)"
| "setFooters f (Some a # ps) w =
     setFooters f ps (w\<lparr>embeds := (embeds w)(a := (embeds w a)\<lparr>Footer := Some f\<rparr>)\<rparr>)"

definition setPageNumber :: "Paginator \<Rightarrow> world \<Rightarrow> outcome \<times> Paginator \<times> world" where
  "setPageNumber p w =
     (if length (pages p) = 0
      then (Return (Some (paginatorError ''setPageNumber'' ''No pages found in paginator.pages'')),
            p, w)
      else (case setFooters (page_number p) (pages p) w of (r, w') \<Rightarrow> (r, p, w')))"

section \<open>Configuration files (package utilpkg)\<close>

text \<open>
  The operating system and the YAML library are outside the repository: \<open>Stat\<close> and
  \<open>ReadFile\<close> answer for a path, \<open>Unmarshal\<close> returns its error together with the output
  value as it left it, and every \<open>WriteFile\<close> is reported in the result (path, contents,
  permission bits).
\<close>

record 'o Env =
  Stat :: "string \<Rightarrow> string option"
  ReadFile :: "string \<Rightarrow> string + string"
  WriteFile :: "string \<Rightarrow> string \<Rightarrow> nat \<Rightarrow> string option"
  Unmarshal :: "string \<Rightarrow> 'o \<Rightarrow> string option \<times> 'o"
  Marshal :: "'o \<Rightarrow> string + string"

datatype config_error = osError string | yamlError string | newError string

definition genConfig ::
  "'o Env \<Rightarrow> string \<Rightarrow> 'o \<Rightarrow> config_error option \<times> 'o \<times> (string \<times> string \<times> nat) list" where
  "genConfig env path reference =
     (case Marshal env reference of
        Inl err \<Rightarrow> (Some (yamlError err), reference, [])
      | Inr serialized \<Rightarrow>
          (case WriteFile env path serialized 432 of
             Some err \<Rightarrow> (Some (osError err), reference, [(path, serialized, 432)])
           | None \<Rightarrow>
               (Some (newError ''generated a new default configuration''), reference,
                [(path, serialized, 432)])))"

definition GetConfig ::
  "'o Env \<Rightarrow> string \<Rightarrow> 'o \<Rightarrow> config_error option \<times> 'o \<times> (string \<times> string \<times> nat) list" where
  "GetConfig env path output =
     (case Stat env path of
        Some err \<Rightarrow> genConfig env path output
      | None \<Rightarrow>
          (case ReadFile env path of
             Inl err \<Rightarrow> (Some (osError err), output, [])
           | Inr file \<Rightarrow> (None, snd (Unmarshal env file output), [])))"

section \<open>Sequences of calls, and concrete sessions, worlds and paginators\<close>

definition ok_session :: Session where
  "ok_session =
     \<lparr>ChannelMessageSendComplex = (\<lambda>w c e. Inr \<lparr>ID = ''m1''\<rparr>),
      ChannelMessageEditComplex = (\<lambda>w a b e. Inr \<lparr>ID = a\<rparr>),
      MessageReactionAdd = (\<lambda>w c m e. None),
      MessageReactionsRemoveAll = (\<lambda>w c m. None)\<rparr>"

definition failing_session :: Session where
  "failing_session =
     \<lparr>ChannelMessageSendComplex = (\<lambda>w c e. Inl ''send refused''),
      ChannelMessageEditComplex = (\<lambda>w a b e. Inl ''edit refused''),
      MessageReactionAdd = (\<lambda>w c m e. Some ''reaction refused''),
      MessageReactionsRemoveAll = (\<lambda>w c m. Some ''removal refused'')\<rparr>"

definition world0 :: world where
  "world0 = \<lparr>embeds = (\<lambda>a. \<lparr>Title = ''page'', Description = [], Footer = None\<rparr>), events = []\<rparr>"

definition emojis0 :: ControlEmojis where
  "emojis0 = \<lparr>toBegin = ''B'', backwards = ''R'', forwards = ''F'', toEnd = ''E'', stop = ''S''\<rparr>"

definition created :: "Session \<Rightarrow> embed_ptr list \<Rightarrow> Paginator" where
  "created s0 ps = (NewPaginator s0 ''ch'' (Some 7) emojis0 50)\<lparr>pages := ps\<rparr>"

definition running :: "Session \<Rightarrow> embed_ptr list \<Rightarrow> int \<Rightarrow> Paginator" where
  "running s0 ps i = (created s0 ps)\<lparr>message := Some \<lparr>ID = ''m1''\<rparr>, active := True, index := i\<rparr>"

definition refuse_page2_session :: Session where
  "refuse_page2_session =
     ok_session\<lparr>ChannelMessageEditComplex :=
       (\<lambda>w a b e. if e = Some 2 then Inl ''edit refused'' else Inr \<lparr>ID = a\<rparr>)\<rparr>"

definition second_try_session :: Session where
  "second_try_session =
     ok_session\<lparr>MessageReactionsRemoveAll :=
       (\<lambda>w c m. if events w = [] then Some ''removal refused'' else None)\<rparr>"

definition yaml_env :: "string Env" where
  "yaml_env =
     \<lparr>Stat = (\<lambda>path. if path = ''config.yml'' then None else Some ''no such file''),
      ReadFile = (\<lambda>path. if path = ''config.yml'' then Inr ''{{{'' else Inl ''no such file''),
      WriteFile = (\<lambda>path file perm. None),
      Unmarshal = (\<lambda>file out. if file = ''{{{'' then (Some ''yaml: did not find expected node'', out)
                                else (None, file)),
      Marshal = (\<lambda>out. Inr out)\<rparr>"

definition is_reaction_add :: "call \<times> reply \<Rightarrow> bool" where
  "is_reaction_add ev = (case fst ev of ReactionAdd c m e \<Rightarrow> True | _ \<Rightarrow> False)"

definition is_removal :: "call \<times> reply \<Rightarrow> bool" where
  "is_removal ev = (case fst ev of ReactionsRemoveAll c m \<Rightarrow> True | _ \<Rightarrow> False)"

text \<open>
  \<^verbatim>\<open>close\<close> called \<open>n\<close> times in a row on the same paginator, with the outcome of every
  call; a panic ends the sequence.
\<close>

fun close_times :: "nat \<Rightarrow> Paginator \<Rightarrow> world \<Rightarrow> outcome list \<times> Paginator \<times> world" where
  "close_times 0 p w = ([], p, w)"
| "close_times (Suc n) p w =
     (case close p w of
        (Panicked x, p', w') \<Rightarrow> ([Panicked x], p', w')
      | (Return r, p', w') \<Rightarrow>
          (case close_times n p' w' of (rs, p'', w'') \<Rightarrow> (Return r # rs, p'', w'')))"

text \<open>The answers to the calls of \<^verbatim>\<open>MessageReactionsRemoveAll\<close> made after the world \<open>w\<close>.\<close>

definition removals_since :: "world \<Rightarrow> world \<Rightarrow> reply list" where
  "removals_since w w' = map snd (filter is_removal (drop (length (events w)) (events w')))"

text \<open>What \<^verbatim>\<open>close\<close> returns for an answer of \<^verbatim>\<open>MessageReactionsRemoveAll\<close>.\<close>

fun removal_outcome :: "reply \<Rightarrow> outcome" where
  "removal_outcome (Failed err) = Return (Some (externalError err))"
| "removal_outcome Done = Return None"
| "removal_outcome (Delivered msg) = Return None"

lemmas fixture_defs =
  ok_session_def world0_def emojis0_def created_def running_def NewPaginator_def

lemmas nav_defs =
  nextPage_def previousPage_def firstPage_def lastPage_def show_current_def current_page_def
  updatePaginatorMessage_def record_call_def wrap_int_def

text \<open>Within the range of a Go \<^verbatim>\<open>int\<close> nothing wraps.\<close>

lemma wrap_int_id:
  "- 9223372036854775808 \<le> i \<Longrightarrow> i < 9223372036854775808 \<Longrightarrow> wrap_int i = i"
  by (simp add: wrap_int_def)

section \<open>Properties of navigation\<close>

text \<open>
  The paginators \<open>running s0 ps 0\<close> used below are in the state in which \<^verbatim>\<open>Run\<close> waits: a
  new paginator with its pages, the message recorded and \<open>active\<close> set.
\<close>

lemma running_is_armed:
  "running s0 ps 0 = (created s0 ps)\<lparr>message := Some \<lparr>ID = ''m1''\<rparr>, active := True\<rparr>"
  by (simp add: fixture_defs)

text \<open>
  C1. The claim: with a non-empty page sequence, the index is within
  \<open>[0, len(pages)-1]\<close> after every navigation operation. The code breaks it: on the only
  page of a running paginator (index 0, the last index) \<^verbatim>\<open>nextPage\<close> is not rejected, since
  its guard compares the index with \<open>len(pages)+1\<close>; it sets the index to 1, which is
  outside \<open>[0, 0]\<close>, and panics on \<^verbatim>\<open>p.pages[1]\<close>.
\<close>

theorem nextPage_leaves_range:
  "nextPage (running ok_session [Some 1] 0) world0 =
     (Panicked IndexOutOfRange, running ok_session [Some 1] 1, world0)
   \<and> \<not> index (running ok_session [Some 1] 1)
         \<le> int (length (pages (running ok_session [Some 1] 1))) - 1"
  by (simp add: nav_defs fixture_defs)

text \<open>
  C2. The claim: \<^verbatim>\<open>next\<close> is rejected exactly at index \<open>pageCount-1\<close>; with three pages, from
  index 0, two calls reach index 2 and the third is rejected, the index staying 2. The code:
  the first two calls return nil at indices 1 and 2, the third is not rejected: it moves the
  index to 3 and panics.
\<close>

theorem nextPage_three_pages:
  "(case nextPage (running ok_session [Some 1, Some 2, Some 3] 0) world0 of
      (r1, p1, w1) \<Rightarrow>
        (case nextPage p1 w1 of
           (r2, p2, w2) \<Rightarrow>
             (case nextPage p2 w2 of
                (r3, p3, w3) \<Rightarrow> (r1, index p1, r2, index p2, r3, index p3))))
   = (Return None, 1, Return None, 2, Panicked IndexOutOfRange, 3)"
  by (simp add: nav_defs fixture_defs)

text \<open>
  C3, as the claim states it: \<^verbatim>\<open>first\<close> returns an error only when the page set is empty.
  At index 0 of three pages \<^verbatim>\<open>firstPage\<close> returns its error.
\<close>

theorem firstPage_error_with_pages:
  "pages (running ok_session [Some 1, Some 2, Some 3] 0) \<noteq> []
   \<and> firstPage (running ok_session [Some 1, Some 2, Some 3] 0) world0 =
       (Return (Some (paginatorError ''previousPage'' ''Page index is north.'')),
        running ok_session [Some 1, Some 2, Some 3] 0, world0)"
  by (simp add: nav_defs fixture_defs)

text \<open>
  C3, amended. With a non-empty page sequence the index is 0 after \<^verbatim>\<open>firstPage\<close>. At index
  0 the method returns its error (reason "Page index is north.") and touches neither the
  paginator nor the platform; at any other index it sets the index to 0 and returns what
  the edit of the hosted message to the first page returns.
\<close>

theorem firstPage_index_zero:
  assumes "pages p \<noteq> []"
  shows "index (fst (snd (firstPage p w))) = 0
    \<and> firstPage p w =
        (if index p = 0
         then (Return (Some (paginatorError ''previousPage'' ''Page index is north.'')), p, w)
         else updatePaginatorMessage (p\<lparr>index := 0\<rparr>) w (pages p ! 0))"
proof (cases "index p = 0")
  case True
  then show ?thesis by (simp add: firstPage_def)
next
  case False
  from assms have "current_page (p\<lparr>index := 0\<rparr>) = Some (pages p ! 0)"
    by (simp add: current_page_def)
  with False show ?thesis
    by (simp add: firstPage_def show_current_def updatePaginatorMessage_def
        split: option.splits sum.splits)
qed

theorem firstPage_index_zero_witness:
  "pages (running ok_session [Some 1, Some 2, Some 3] 2) \<noteq> []
   \<and> index (fst (snd (firstPage (running ok_session [Some 1, Some 2, Some 3] 2) world0))) = 0
   \<and> fst (firstPage (running ok_session [Some 1, Some 2, Some 3] 2) world0) = Return None"
proof -
  have ne: "pages (running ok_session [Some 1, Some 2, Some 3] 2) \<noteq> []"
    by (simp add: fixture_defs)
  show ?thesis
    using firstPage_index_zero [OF ne, of world0] ne
    by (simp add: updatePaginatorMessage_def fixture_defs)
qed

text \<open>
  C4. The claim: \<^verbatim>\<open>last\<close> sets the index to \<open>pageCount-1\<close> from any index. The code: at
  index 0 of three pages \<^verbatim>\<open>lastPage\<close> returns the error "Page index is already max." and
  the index stays 0, not 2.
\<close>

theorem lastPage_stuck_at_zero:
  "lastPage (running ok_session [Some 1, Some 2, Some 3] 0) world0 =
     (Return (Some (paginatorError ''previousPage'' ''Page index is already max.'')),
      running ok_session [Some 1, Some 2, Some 3] 0, world0)
   \<and> index (running ok_session [Some 1, Some 2, Some 3] 0) = 0
   \<and> int (length (pages (running ok_session [Some 1, Some 2, Some 3] 0))) - 1 = 2"
  by (simp add: nav_defs fixture_defs)

text \<open>
  C5, as the claim states it: a failed edit leaves the index unchanged. With a session whose
  edits fail, \<^verbatim>\<open>nextPage\<close> at index 0 of three pages returns the error of the edit and the
  index is 1.
\<close>

theorem nextPage_failed_edit_moves_index:
  "nextPage (running failing_session [Some 1, Some 2, Some 3] 0) world0 =
     (Return (Some (externalError ''edit refused'')),
      running failing_session [Some 1, Some 2, Some 3] 1,
      world0\<lparr>events := [(Edit ''m1'' ''ch'' (Some 2), Failed ''edit refused'')]\<rparr>)
   \<and> index (running failing_session [Some 1, Some 2, Some 3] 1)
       \<noteq> index (running failing_session [Some 1, Some 2, Some 3] 0)"
  by (simp add: nav_defs failing_session_def refuse_page2_session_def fixture_defs)

lemma show_current_failed_edit:
  assumes "message p = Some m"
  shows "ChannelMessageEditComplex (sess p) w (ID m) (channelID p) (pages p ! nat i) = Inl err
    \<Longrightarrow> 0 \<le> i \<Longrightarrow> i < int (length (pages p)) \<Longrightarrow>
         show_current (p\<lparr>index := i\<rparr>) w =
           (Return (Some (externalError err)), p\<lparr>index := i\<rparr>,
            record_call (Edit (ID m) (channelID p) (pages p ! nat i)) (Failed err) w)"
  using assms by (simp add: show_current_def current_page_def updatePaginatorMessage_def)

text \<open>
  C5, amended. Every navigation method whose guard passes writes the new index before it
  edits the hosted message. When the target page exists and the edit of the hosted message
  to that page fails, the method returns the error of the edit, the index is the target
  index, and nothing else of the paginator has changed. Only the edit to the target page
  has to fail; what the session would answer for other pages plays no part.
\<close>

theorem navigation_commits_index_before_edit:
  assumes "message p = Some m"
  shows
    "(index p \<noteq> wrap_int (int (length (pages p)) + 1)
        \<and> 0 \<le> wrap_int (index p + 1) \<and> wrap_int (index p + 1) < int (length (pages p))
        \<and> ChannelMessageEditComplex (sess p) w (ID m) (channelID p)
              (pages p ! nat (wrap_int (index p + 1))) = Inl err \<longrightarrow>
        nextPage p w =
          (Return (Some (externalError err)), p\<lparr>index := wrap_int (index p + 1)\<rparr>,
           record_call (Edit (ID m) (channelID p) (pages p ! nat (wrap_int (index p + 1))))
             (Failed err) w))
   \<and> (index p \<noteq> 0
        \<and> 0 \<le> wrap_int (index p - 1) \<and> wrap_int (index p - 1) < int (length (pages p))
        \<and> ChannelMessageEditComplex (sess p) w (ID m) (channelID p)
              (pages p ! nat (wrap_int (index p - 1))) = Inl err \<longrightarrow>
        previousPage p w =
          (Return (Some (externalError err)), p\<lparr>index := wrap_int (index p - 1)\<rparr>,
           record_call (Edit (ID m) (channelID p) (pages p ! nat (wrap_int (index p - 1))))
             (Failed err) w))
   \<and> (index p \<noteq> 0 \<and> pages p \<noteq> []
        \<and> ChannelMessageEditComplex (sess p) w (ID m) (channelID p) (pages p ! 0) = Inl err \<longrightarrow>
        firstPage p w =
          (Return (Some (externalError err)), p\<lparr>index := 0\<rparr>,
           record_call (Edit (ID m) (channelID p) (pages p ! 0)) (Failed err) w))
   \<and> (index p \<noteq> 0
        \<and> 0 \<le> wrap_int (int (length (pages p)) - 1)
        \<and> wrap_int (int (length (pages p)) - 1) < int (length (pages p))
        \<and> ChannelMessageEditComplex (sess p) w (ID m) (channelID p)
              (pages p ! nat (wrap_int (int (length (pages p)) - 1))) = Inl err \<longrightarrow>
        lastPage p w =
          (Return (Some (externalError err)),
           p\<lparr>index := wrap_int (int (length (pages p)) - 1)\<rparr>,
           record_call
             (Edit (ID m) (channelID p) (pages p ! nat (wrap_int (int (length (pages p)) - 1))))
             (Failed err) w))"
proof (intro conjI impI)
  assume "index p \<noteq> wrap_int (int (length (pages p)) + 1)
        \<and> 0 \<le> wrap_int (index p + 1) \<and> wrap_int (index p + 1) < int (length (pages p))
        \<and> ChannelMessageEditComplex (sess p) w (ID m) (channelID p)
              (pages p ! nat (wrap_int (index p + 1))) = Inl err"
  then show "nextPage p w =
          (Return (Some (externalError err)), p\<lparr>index := wrap_int (index p + 1)\<rparr>,
           record_call (Edit (ID m) (channelID p) (pages p ! nat (wrap_int (index p + 1))))
             (Failed err) w)"
    using show_current_failed_edit [OF assms, of w "wrap_int (index p + 1)" err]
    by (simp add: nextPage_def)
next
  assume "index p \<noteq> 0
        \<and> 0 \<le> wrap_int (index p - 1) \<and> wrap_int (index p - 1) < int (length (pages p))
        \<and> ChannelMessageEditComplex (sess p) w (ID m) (channelID p)
              (pages p ! nat (wrap_int (index p - 1))) = Inl err"
  then show "previousPage p w =
          (Return (Some (externalError err)), p\<lparr>index := wrap_int (index p - 1)\<rparr>,
           record_call (Edit (ID m) (channelID p) (pages p ! nat (wrap_int (index p - 1))))
             (Failed err) w)"
    using show_current_failed_edit [OF assms, of w "wrap_int (index p - 1)" err]
    by (simp add: previousPage_def)
next
  assume "index p \<noteq> 0 \<and> pages p \<noteq> []
        \<and> ChannelMessageEditComplex (sess p) w (ID m) (channelID p) (pages p ! 0) = Inl err"
  then show "firstPage p w =
          (Return (Some (externalError err)), p\<lparr>index := 0\<rparr>,
           record_call (Edit (ID m) (channelID p) (pages p ! 0)) (Failed err) w)"
    using show_current_failed_edit [OF assms, of w 0 err]
    by (simp add: firstPage_def)
next
  assume "index p \<noteq> 0
        \<and> 0 \<le> wrap_int (int (length (pages p)) - 1)
        \<and> wrap_int (int (length (pages p)) - 1) < int (length (pages p))
        \<and> ChannelMessageEditComplex (sess p) w (ID m) (channelID p)
              (pages p ! nat (wrap_int (int (length (pages p)) - 1))) = Inl err"
  then show "lastPage p w =
          (Return (Some (externalError err)),
           p\<lparr>index := wrap_int (int (length (pages p)) - 1)\<rparr>,
           record_call
             (Edit (ID m) (channelID p) (pages p ! nat (wrap_int (int (length (pages p)) - 1))))
             (Failed err) w)"
    using show_current_failed_edit [OF assms, of w "wrap_int (int (length (pages p)) - 1)" err]
    by (simp add: lastPage_def)
qed

theorem navigation_commits_index_before_edit_witness:
  "nextPage (running refuse_page2_session [Some 1, Some 2, Some 3] 0) world0 =
     (Return (Some (externalError ''edit refused'')),
      running refuse_page2_session [Some 1, Some 2, Some 3] 1,
      world0\<lparr>events := [(Edit ''m1'' ''ch'' (Some 2), Failed ''edit refused'')]\<rparr>)
   \<and> previousPage (running refuse_page2_session [Some 1, Some 2, Some 3] 2) world0 =
     (Return (Some (externalError ''edit refused'')),
      running refuse_page2_session [Some 1, Some 2, Some 3] 1,
      world0\<lparr>events := [(Edit ''m1'' ''ch'' (Some 2), Failed ''edit refused'')]\<rparr>)
   \<and> firstPage (running failing_session [Some 1, Some 2, Some 3] 1) world0 =
     (Return (Some (externalError ''edit refused'')),
      running failing_session [Some 1, Some 2, Some 3] 0,
      world0\<lparr>events := [(Edit ''m1'' ''ch'' (Some 1), Failed ''edit refused'')]\<rparr>)
   \<and> lastPage (running failing_session [Some 1, Some 2, Some 3] 1) world0 =
     (Return (Some (externalError ''edit refused'')),
      running failing_session [Some 1, Some 2, Some 3] 2,
      world0\<lparr>events := [(Edit ''m1'' ''ch'' (Some 3), Failed ''edit refused'')]\<rparr>)"
proof -
  have a: "message (running refuse_page2_session [Some 1, Some 2, Some 3] 0) = Some \<lparr>ID = ''m1''\<rparr>"
    and b: "message (running refuse_page2_session [Some 1, Some 2, Some 3] 2) = Some \<lparr>ID = ''m1''\<rparr>"
    and c: "message (running failing_session [Some 1, Some 2, Some 3] 1) = Some \<lparr>ID = ''m1''\<rparr>"
    by (simp_all add: failing_session_def refuse_page2_session_def fixture_defs)
  show ?thesis
    using navigation_commits_index_before_edit [OF a, of world0 "''edit refused''"]
      navigation_commits_index_before_edit [OF b, of world0 "''edit refused''"]
      navigation_commits_index_before_edit [OF c, of world0 "''edit refused''"]
    by (simp add: failing_session_def refuse_page2_session_def fixture_defs record_call_def wrap_int_def)
qed

section \<open>Properties of Run and close\<close>

text \<open>
  C6. \<^verbatim>\<open>Run\<close> on an active paginator returns the error "Paginator is already running.",
  and on an inactive paginator without pages the error "No pages found in
  paginator.pages"; in both cases the paginator and the world (the embeds and the calls
  made to the platform) are as they were.
\<close>

theorem Run_rejected_without_effects:
  "(active p \<longrightarrow>
      Run p w = (Return (Some (paginatorError ''Run'' ''Paginator is already running.'')), p, w))
   \<and> (\<not> active p \<and> pages p = [] \<longrightarrow>
      Run p w =
        (Return (Some (paginatorError ''Run'' ''No pages found in paginator.pages'')), p, w))"
  by (simp add: Run_def)

theorem Run_rejected_without_effects_witness:
  "active (running ok_session [Some 1] 0)
   \<and> Run (running ok_session [Some 1] 0) world0 =
       (Return (Some (paginatorError ''Run'' ''Paginator is already running.'')),
        running ok_session [Some 1] 0, world0)
   \<and> \<not> active (created ok_session []) \<and> pages (created ok_session []) = []
   \<and> Run (created ok_session []) world0 =
       (Return (Some (paginatorError ''Run'' ''No pages found in paginator.pages'')),
        created ok_session [], world0)"
proof -
  have a: "active (running ok_session [Some 1] 0)"
    by (simp add: fixture_defs)
  have b: "\<not> active (created ok_session []) \<and> pages (created ok_session []) = []"
    by (simp add: fixture_defs)
  show ?thesis
    using Run_rejected_without_effects [of "running ok_session [Some 1] 0" world0]
      Run_rejected_without_effects [of "created ok_session []" world0] a b
    by simp
qed

lemma created_by_Add:
  "Add (\<lambda>w e. None) (NewPaginator ok_session ''ch'' (Some 7) emojis0 50) world0 (Some 1) =
     (Return None, created ok_session [Some 1], world0)"
  by (simp add: Add_def fixture_defs)

lemma close_no_reaction_add:
  "filter is_reaction_add (events (snd (snd (close p w)))) = filter is_reaction_add (events w)"
  by (simp add: close_def Let_def record_call_def is_reaction_add_def
      split: option.splits)

lemma Run_never_adds_reactions:
  "filter is_reaction_add (events (snd (snd (Run p w)))) = filter is_reaction_add (events w)"
  by (simp add: Run_def close_no_reaction_add record_call_def is_reaction_add_def
      split: option.splits sum.splits)

lemma addReactions_from_all:
  assumes "message p = Some m"
    and "\<And>w' e. MessageReactionAdd (sess p) w' (channelID p) (ID m) e = None"
  shows "addReactions_from p es w =
           (Return None, p,
            w\<lparr>events := events w @ map (\<lambda>e. (ReactionAdd (channelID p) (ID m) e, Done)) es\<rparr>)"
  using assms by (induction es arbitrary: w) (simp_all add: record_call_def)

text \<open>
  C7. The claim: a successful \<^verbatim>\<open>Run\<close> sends the first page, records the message, marks
  the paginator active and adds one reaction for each control emoji, in order. The code: on
  a new paginator with one page and a session that accepts every call, \<^verbatim>\<open>Run\<close> makes two
  calls in all, the send of the page and, after the time-out, the removal of all
  reactions by \<^verbatim>\<open>close\<close>; \<^verbatim>\<open>MessageReactionAdd\<close> is never called.
\<close>

theorem Run_adds_no_reactions:
  "Run (created ok_session [Some 1]) world0 =
     (Return None,
      (created ok_session [Some 1])
        \<lparr>message := Some \<lparr>ID = ''m1''\<rparr>, active := False, reactionsRemoved := True\<rparr>,
      world0\<lparr>events := [(Send ''ch'' (Some 1), Delivered \<lparr>ID = ''m1''\<rparr>),
                        (ReactionsRemoveAll ''ch'' ''m1'', Done)]\<rparr>)
   \<and> filter is_reaction_add
       (events (snd (snd (Run (created ok_session [Some 1]) world0)))) = []"
  by (simp add: Run_def close_def current_page_def record_call_def is_reaction_add_def
      fixture_defs)

text \<open>
  What \<^verbatim>\<open>Run\<close> does before it waits: it sends the page at the current index and goes on
  to \<^verbatim>\<open>close\<close> from the paginator with the message recorded and \<open>active\<close> set.
\<close>

lemma Run_sent:
  assumes "\<not> active p" and "current_page p = Some e"
    and "ChannelMessageSendComplex (sess p) w (channelID p) e = Inr msg"
  shows "Run p w =
           close (p\<lparr>message := Some msg, active := True\<rparr>)
             (record_call (Send (channelID p) e) (Delivered msg) w)"
proof -
  from assms(2) have "pages p \<noteq> []"
    by (auto simp: current_page_def split: if_splits)
  with assms show ?thesis by (simp add: Run_def)
qed

lemma addReactions_in_order:
  assumes "message p = Some m"
    and "\<And>w' e. MessageReactionAdd (sess p) w' (channelID p) (ID m) e = None"
  shows "addReactions p w =
           (Return None, p,
            w\<lparr>events := events w @
                 map (\<lambda>e. (ReactionAdd (channelID p) (ID m) e, Done))
                   [toBegin (controlEmojis p), backwards (controlEmojis p),
                    forwards (controlEmojis p), toEnd (controlEmojis p),
                    stop (controlEmojis p)]\<rparr>)"
  unfolding addReactions_def emoji_fields_def by (rule addReactions_from_all [OF assms])

text \<open>
  C8, as the claim states it: at most one removal call, also after a failed one. With a
  session that refuses the removal, two calls of \<^verbatim>\<open>close\<close> on a running paginator make two
  removal calls.
\<close>

theorem close_twice_two_removals:
  "removals_since world0
     (snd (snd (close_times 2 (running failing_session [Some 1] 0) world0)))
     = [Failed ''removal refused'', Failed ''removal refused'']
   \<and> \<not> length (removals_since world0
          (snd (snd (close_times 2 (running failing_session [Some 1] 0) world0)))) \<le> 1"
  by (simp add: numeral_2_eq_2 close_def record_call_def removals_since_def is_removal_def
      failing_session_def second_try_session_def fixture_defs)

lemma close_inactive: "\<not> active (fst (snd (close p w)))"
  by (simp add: close_def Let_def split: option.splits)

lemma close_times_inactive:
  "0 < n \<or> \<not> active p \<Longrightarrow> \<not> active (fst (snd (close_times n p w)))"
proof (induction n arbitrary: p w)
  case 0
  then show ?case by simp
next
  case (Suc n)
  obtain r p' w' where c: "close p w = (r, p', w')"
    by (cases "close p w") auto
  with close_inactive [of p w] have "\<not> active p'" by simp
  with Suc.IH [of p' w'] c show ?case
    by (auto split: outcome.splits prod.splits)
qed

lemma close_cases:
  assumes "message p = Some m"
  shows "(reactionsRemoved p \<and> close p w = (Return None, p\<lparr>active := False\<rparr>, w))
    \<or> (\<not> reactionsRemoved p
        \<and> MessageReactionsRemoveAll (sess p) w (channelID p) (ID m) = None
        \<and> close p w =
            (Return None, p\<lparr>active := False, reactionsRemoved := True\<rparr>,
             record_call (ReactionsRemoveAll (channelID p) (ID m)) Done w))
    \<or> (\<exists>err. \<not> reactionsRemoved p
        \<and> MessageReactionsRemoveAll (sess p) w (channelID p) (ID m) = Some err
        \<and> close p w =
            (Return (Some (externalError err)), p\<lparr>active := False\<rparr>,
             record_call (ReactionsRemoveAll (channelID p) (ID m)) (Failed err) w))"
  using assms by (simp add: close_def Let_def split: option.splits)

text \<open>
  The calls made by \<open>n\<close> calls of \<^verbatim>\<open>close\<close> are removal calls on the hosted message, one
  for each call of \<^verbatim>\<open>close\<close> up to and including the first that the session accepts.
\<close>

lemma close_times_trace:
  assumes "message p = Some m"
  shows "\<exists>fs. events (snd (snd (close_times n p w))) =
                events w @ map (Pair (ReactionsRemoveAll (channelID p) (ID m))) fs
              \<and> fst (close_times n p w) =
                  map removal_outcome fs @ replicate (n - length fs) (Return None)
              \<and> length fs \<le> n \<and> Done \<notin> set (butlast fs)
              \<and> (reactionsRemoved p \<longrightarrow> fs = [])
              \<and> (\<not> reactionsRemoved p \<and> Done \<notin> set fs \<longrightarrow> length fs = n)
              \<and> (reactionsRemoved (fst (snd (close_times n p w)))
                   = (reactionsRemoved p \<or> Done \<in> set fs))
              \<and> (Done \<in> set fs \<longrightarrow>
                   (\<exists>w'. MessageReactionsRemoveAll (sess p) w' (channelID p) (ID m) = None))"
  using assms
proof (induction n arbitrary: p w)
  case 0
  then show ?case by simp
next
  case (Suc n)
  let ?c = "ReactionsRemoveAll (channelID p) (ID m)"
  from close_cases [OF Suc.prems, of w]
  consider
    (removed) "reactionsRemoved p" "close p w = (Return None, p\<lparr>active := False\<rparr>, w)"
  | (accepted) "\<not> reactionsRemoved p"
      "MessageReactionsRemoveAll (sess p) w (channelID p) (ID m) = None"
      "close p w = (Return None, p\<lparr>active := False, reactionsRemoved := True\<rparr>,
                    record_call ?c Done w)"
  | (failed) err where "\<not> reactionsRemoved p"
      "close p w = (Return (Some (externalError err)), p\<lparr>active := False\<rparr>,
                    record_call ?c (Failed err) w)"
    by (elim disjE conjE exE) (rule that, assumption+)+
  then show ?case
  proof cases
    case removed
    let ?p1 = "p\<lparr>active := False\<rparr>"
    from Suc.IH [of ?p1 w] Suc.prems removed(1)
    have ih: "events (snd (snd (close_times n ?p1 w))) = events w"
      "fst (close_times n ?p1 w) = replicate n (Return None)"
      "reactionsRemoved (fst (snd (close_times n ?p1 w)))"
      by auto
    obtain rs p2 w2 where ct: "close_times n ?p1 w = (rs, p2, w2)"
      by (cases "close_times n ?p1 w") auto
    with ih have "events w2 = events w" "rs = replicate n (Return None)" "reactionsRemoved p2"
      by simp_all
    with removed ct show ?thesis
      by (intro exI [of _ "[]"]) simp
  next
    case accepted
    let ?p1 = "p\<lparr>active := False, reactionsRemoved := True\<rparr>"
    let ?w1 = "record_call ?c Done w"
    from Suc.IH [of ?p1 ?w1] Suc.prems
    have ih: "events (snd (snd (close_times n ?p1 ?w1))) = events w @ [(?c, Done)]"
      "fst (close_times n ?p1 ?w1) = replicate n (Return None)"
      "reactionsRemoved (fst (snd (close_times n ?p1 ?w1)))"
      by (auto simp: record_call_def)
    obtain rs p2 w2 where ct: "close_times n ?p1 ?w1 = (rs, p2, w2)"
      by (cases "close_times n ?p1 ?w1") auto
    with ih have "events w2 = events w @ [(?c, Done)]" "rs = replicate n (Return None)"
      "reactionsRemoved p2"
      by simp_all
    with accepted ct show ?thesis
      by (intro exI [of _ "[Done]"]) auto
  next
    case failed
    let ?p1 = "p\<lparr>active := False\<rparr>"
    let ?w1 = "record_call ?c (Failed err) w"
    from Suc.IH [of ?p1 ?w1] Suc.prems failed(1)
    obtain fs where fs:
      "events (snd (snd (close_times n ?p1 ?w1)))
         = events w @ (?c, Failed err) # map (Pair ?c) fs"
      "fst (close_times n ?p1 ?w1) =
         map removal_outcome fs @ replicate (n - length fs) (Return None)"
      "length fs \<le> n" "Done \<notin> set (butlast fs)"
      "Done \<notin> set fs \<longrightarrow> length fs = n"
      "reactionsRemoved (fst (snd (close_times n ?p1 ?w1))) = (Done \<in> set fs)"
      "Done \<in> set fs \<longrightarrow>
         (\<exists>w'. MessageReactionsRemoveAll (sess p) w' (channelID p) (ID m) = None)"
      by (auto simp: record_call_def)
    obtain rs p2 w2 where ct: "close_times n ?p1 ?w1 = (rs, p2, w2)"
      by (cases "close_times n ?p1 ?w1") auto
    with fs have "events w2 = events w @ (?c, Failed err) # map (Pair ?c) fs"
      "rs = map removal_outcome fs @ replicate (n - length fs) (Return None)"
      "reactionsRemoved p2 = (Done \<in> set fs)"
      by simp_all
    with failed ct fs(3-5,7) show ?thesis
      by (intro exI [of _ "Failed err # fs"]) auto
  qed
qed

lemma one_Done:
  assumes "Done \<notin> set (butlast fs)"
  shows "length (filter (\<lambda>r. r = Done) fs) \<le> 1"
proof (cases fs rule: rev_cases)
  case Nil
  then show ?thesis by simp
next
  case (snoc ys y)
  with assms have "filter (\<lambda>r. r = Done) ys = []"
    by (auto simp: filter_empty_conv)
  with snoc show ?thesis by simp
qed

text \<open>
  C8, amended. On a running paginator (one whose message is recorded), \<open>n \<ge> 1\<close> calls of
  \<^verbatim>\<open>close\<close> leave \<open>active\<close> false and call the platform only to remove the reactions of
  the hosted message. At most \<open>n\<close> removal calls are made, at most one of them succeeds,
  and none follows one that succeeded. A refused removal is made again by the next call of
  \<^verbatim>\<open>close\<close>: while no removal has succeeded every call of \<^verbatim>\<open>close\<close> makes one and returns
  its error, so with a session that refuses every removal \<open>n\<close> calls make \<open>n\<close> removal
  calls. After the removal that succeeded, and from the start when \<open>reactionsRemoved\<close> is
  set, \<^verbatim>\<open>close\<close> makes no call and returns nil; \<open>reactionsRemoved\<close> is set afterwards
  exactly when it was set before or a removal succeeded.
\<close>

theorem close_times_one_successful_removal:
  assumes "message p = Some m" and "0 < n"
  shows "\<not> active (fst (snd (close_times n p w)))
    \<and> length (removals_since w (snd (snd (close_times n p w)))) \<le> n
    \<and> length (filter (\<lambda>r. r = Done) (removals_since w (snd (snd (close_times n p w))))) \<le> 1
    \<and> Done \<notin> set (butlast (removals_since w (snd (snd (close_times n p w)))))
    \<and> (reactionsRemoved p \<longrightarrow> removals_since w (snd (snd (close_times n p w))) = [])
    \<and> (\<not> reactionsRemoved p
          \<and> Done \<notin> set (removals_since w (snd (snd (close_times n p w)))) \<longrightarrow>
        length (removals_since w (snd (snd (close_times n p w)))) = n)
    \<and> ((\<forall>w'. MessageReactionsRemoveAll (sess p) w' (channelID p) (ID m) \<noteq> None)
          \<and> \<not> reactionsRemoved p \<longrightarrow>
        length (removals_since w (snd (snd (close_times n p w)))) = n)
    \<and> events (snd (snd (close_times n p w))) =
        events w @ map (Pair (ReactionsRemoveAll (channelID p) (ID m)))
                     (removals_since w (snd (snd (close_times n p w))))
    \<and> fst (close_times n p w) =
        map removal_outcome (removals_since w (snd (snd (close_times n p w))))
        @ replicate (n - length (removals_since w (snd (snd (close_times n p w)))))
            (Return None)
    \<and> reactionsRemoved (fst (snd (close_times n p w))) =
        (reactionsRemoved p \<or> Done \<in> set (removals_since w (snd (snd (close_times n p w)))))"
proof -
  from close_times_trace [OF assms(1), of n w]
  obtain fs where fs:
    "events (snd (snd (close_times n p w))) =
       events w @ map (Pair (ReactionsRemoveAll (channelID p) (ID m))) fs"
    "fst (close_times n p w) = map removal_outcome fs @ replicate (n - length fs) (Return None)"
    "length fs \<le> n" "Done \<notin> set (butlast fs)" "reactionsRemoved p \<longrightarrow> fs = []"
    "\<not> reactionsRemoved p \<and> Done \<notin> set fs \<longrightarrow> length fs = n"
    "reactionsRemoved (fst (snd (close_times n p w))) = (reactionsRemoved p \<or> Done \<in> set fs)"
    "Done \<in> set fs \<longrightarrow>
       (\<exists>w'. MessageReactionsRemoveAll (sess p) w' (channelID p) (ID m) = None)"
    by blast
  have "filter is_removal (map (Pair (ReactionsRemoveAll (channelID p) (ID m))) fs)
          = map (Pair (ReactionsRemoveAll (channelID p) (ID m))) fs"
    by (simp add: is_removal_def)
  with fs(1) have r: "removals_since w (snd (snd (close_times n p w))) = fs"
    by (simp add: removals_since_def comp_def)
  from assms(2) have a: "\<not> active (fst (snd (close_times n p w)))"
    by (simp add: close_times_inactive)
  from fs(6,8) have refused:
    "(\<forall>w'. MessageReactionsRemoveAll (sess p) w' (channelID p) (ID m) \<noteq> None)
       \<and> \<not> reactionsRemoved p \<longrightarrow> length fs = n"
    by blast
  show ?thesis
    unfolding r using a fs(1-7) one_Done [OF fs(4)] refused by blast
qed

theorem close_times_one_successful_removal_witness:
  "message (running second_try_session [Some 1] 0) = Some \<lparr>ID = ''m1''\<rparr> \<and> (0::nat) < 3
   \<and> removals_since world0
       (snd (snd (close_times 3 (running second_try_session [Some 1] 0) world0)))
       = [Failed ''removal refused'', Done]
   \<and> \<not> active (fst (snd (close_times 3 (running second_try_session [Some 1] 0) world0)))
   \<and> fst (close_times 3 (running second_try_session [Some 1] 0) world0)
       = [Return (Some (externalError ''removal refused'')), Return None, Return None]
   \<and> \<not> reactionsRemoved (running failing_session [Some 1] 0)
   \<and> length (removals_since world0
       (snd (snd (close_times 3 (running failing_session [Some 1] 0) world0)))) = 3
   \<and> reactionsRemoved ((running failing_session [Some 1] 0)\<lparr>reactionsRemoved := True\<rparr>)
   \<and> removals_since world0
       (snd (snd (close_times 3
          ((running failing_session [Some 1] 0)\<lparr>reactionsRemoved := True\<rparr>) world0)))
       = []"
proof -
  let ?P = "running second_try_session [Some 1] 0"
  let ?Q = "running failing_session [Some 1] 0"
  let ?R = "(running failing_session [Some 1] 0)\<lparr>reactionsRemoved := True\<rparr>"
  have z: "(0::nat) < 3" by simp
  have mP: "message ?P = Some \<lparr>ID = ''m1''\<rparr>"
    and mQ: "message ?Q = Some \<lparr>ID = ''m1''\<rparr>"
    and mR: "message ?R = Some \<lparr>ID = ''m1''\<rparr>"
    and rR: "reactionsRemoved ?R"
    and nQ: "\<not> reactionsRemoved ?Q"
    by (simp_all add: failing_session_def second_try_session_def fixture_defs)
  have hQ: "(\<forall>w'. MessageReactionsRemoveAll (sess ?Q) w' (channelID ?Q) (ID \<lparr>ID = ''m1''\<rparr>) \<noteq> None)
              \<and> \<not> reactionsRemoved ?Q"
    by (simp add: failing_session_def second_try_session_def fixture_defs)
  note P = close_times_one_successful_removal [OF mP z, of world0]
  note Q = close_times_one_successful_removal [OF mQ z, of world0]
  note R = close_times_one_successful_removal [OF mR z, of world0]
  have e: "removals_since world0 (snd (snd (close_times 3 ?P world0)))
             = [Failed ''removal refused'', Done]"
    by (simp add: numeral_3_eq_3 close_def record_call_def removals_since_def is_removal_def
        failing_session_def second_try_session_def fixture_defs)
  have aP: "\<not> active (fst (snd (close_times 3 ?P world0)))"
    by (rule P [THEN conjunct1])
  have "fst (close_times 3 ?P world0) =
          map removal_outcome (removals_since world0 (snd (snd (close_times 3 ?P world0))))
          @ replicate (3 - length (removals_since world0 (snd (snd (close_times 3 ?P world0)))))
              (Return None)"
    by (rule P [THEN conjunct2, THEN conjunct2, THEN conjunct2, THEN conjunct2,
          THEN conjunct2, THEN conjunct2, THEN conjunct2, THEN conjunct2, THEN conjunct1])
  then have oP: "fst (close_times 3 ?P world0)
       = [Return (Some (externalError ''removal refused'')), Return None, Return None]"
    unfolding e by simp
  have lQ: "length (removals_since world0 (snd (snd (close_times 3 ?Q world0)))) = 3"
    by (rule Q [THEN conjunct2, THEN conjunct2, THEN conjunct2, THEN conjunct2,
          THEN conjunct2, THEN conjunct2, THEN conjunct1, THEN mp, OF hQ])
  have eR: "removals_since world0 (snd (snd (close_times 3 ?R world0))) = []"
    by (rule R [THEN conjunct2, THEN conjunct2, THEN conjunct2, THEN conjunct2,
          THEN conjunct1, THEN mp, OF rR])
  from mP z e aP oP nQ lQ rR eR show ?thesis by blast
qed

section \<open>Properties of the page numbers\<close>

text \<open>
  C9, as the claim states it: only the footer of the page at the index changes. With two
  pages and index 0, \<^verbatim>\<open>setPageNumber\<close> also writes the footer "1/2" into the second
  page, which had none.
\<close>

theorem setPageNumber_changes_other_page:
  "Footer (embeds world0 2) = None
   \<and> fst (setPageNumber (running ok_session [Some 1, Some 2] 0) world0) = Return None
   \<and> Footer (embeds (snd (snd (setPageNumber (running ok_session [Some 1, Some 2] 0) world0))) 2)
       = Some \<lparr>Text = ''1/2'', IconURL = [], ProxyIconURL = []\<rparr>"
  by (simp add: setPageNumber_def page_number_def show_int_def digit_def wrap_int_def
      fixture_defs)

lemma setFooters_all:
  assumes "None \<notin> set ps"
  shows "setFooters f ps w =
           (Return None,
            w\<lparr>embeds := (\<lambda>a. if Some a \<in> set ps then (embeds w a)\<lparr>Footer := Some f\<rparr>
                             else embeds w a)\<rparr>)"
  using assms
proof (induction ps arbitrary: w)
  case Nil
  then show ?case by simp
next
  case (Cons x ps)
  then obtain a where x: "x = Some a" by (cases x) auto
  from Cons.prems have "None \<notin> set ps" by simp
  from Cons.IH [OF this] x show ?case
    by (auto simp: fun_eq_iff)
qed

text \<open>
  C9, amended. With a non-empty page sequence without nil pages, \<^verbatim>\<open>setPageNumber\<close>
  returns nil and replaces the footer of every page, not only of the page at the index, by
  a new footer whose text is what \<^verbatim>\<open>fmt.Sprintf("%d/%d", p.index+1, len(p.pages))\<close> prints:
  \<open>index+1\<close>, a slash and the number of pages while the index is below the largest
  \<^verbatim>\<open>int\<close>, where \<open>index+1\<close> wraps to the smallest one. Every other field of every page,
  every embed that is not a page, the paginator and the calls made to the platform are
  unchanged.
\<close>

theorem setPageNumber_every_page:
  assumes "pages p \<noteq> []" and "None \<notin> set (pages p)"
  shows "setPageNumber p w =
           (Return None, p,
            w\<lparr>embeds := (\<lambda>a. if Some a \<in> set (pages p)
                             then (embeds w a)\<lparr>Footer := Some (page_number p)\<rparr>
                             else embeds w a)\<rparr>)
    \<and> page_number p =
        \<lparr>Text = show_int (wrap_int (index p + 1)) @ ''/'' @ show_int (int (length (pages p))),
         IconURL = [], ProxyIconURL = []\<rparr>
    \<and> (- 9223372036854775808 \<le> index p \<and> index p < 9223372036854775807 \<longrightarrow>
         Text (page_number p) =
           show_int (index p + 1) @ ''/'' @ show_int (int (length (pages p))))
    \<and> (index p = 9223372036854775807 \<longrightarrow>
         Text (page_number p) =
           ''-9223372036854775808/'' @ show_int (int (length (pages p))))"
proof (intro conjI impI)
  from assms show "setPageNumber p w =
           (Return None, p,
            w\<lparr>embeds := (\<lambda>a. if Some a \<in> set (pages p)
                             then (embeds w a)\<lparr>Footer := Some (page_number p)\<rparr>
                             else embeds w a)\<rparr>)"
    by (simp add: setPageNumber_def setFooters_all)
  show "page_number p =
        \<lparr>Text = show_int (wrap_int (index p + 1)) @ ''/'' @ show_int (int (length (pages p))),
         IconURL = [], ProxyIconURL = []\<rparr>"
    by (simp add: page_number_def)
next
  assume "- 9223372036854775808 \<le> index p \<and> index p < 9223372036854775807"
  then have "wrap_int (index p + 1) = index p + 1"
    by (intro wrap_int_id) simp_all
  then show "Text (page_number p) =
           show_int (index p + 1) @ ''/'' @ show_int (int (length (pages p)))"
    by (simp add: page_number_def)
next
  assume "index p = 9223372036854775807"
  then have "wrap_int (index p + 1) = - 9223372036854775808"
    by (simp add: wrap_int_def)
  moreover have "show_int (- 9223372036854775808) = ''-9223372036854775808''"
    by (simp add: show_int_def digit_def)
  ultimately show "Text (page_number p) =
           ''-9223372036854775808/'' @ show_int (int (length (pages p)))"
    by (simp add: page_number_def)
qed

theorem setPageNumber_every_page_witness:
  "pages (running ok_session [Some 1, Some 2, Some 3] 1) \<noteq> []
   \<and> None \<notin> set (pages (running ok_session [Some 1, Some 2, Some 3] 1))
   \<and> fst (setPageNumber (running ok_session [Some 1, Some 2, Some 3] 1) world0) = Return None
   \<and> Footer (embeds
         (snd (snd (setPageNumber (running ok_session [Some 1, Some 2, Some 3] 1) world0))) 3)
       = Some \<lparr>Text = ''2/3'', IconURL = [], ProxyIconURL = []\<rparr>
   \<and> embeds (snd (snd (setPageNumber (running ok_session [Some 1, Some 2, Some 3] 1) world0))) 4
       = embeds world0 4
   \<and> Text (page_number (running ok_session [Some 1, Some 2, Some 3] 1)) = ''2/3''
   \<and> index (running ok_session [Some 1] 9223372036854775807) = 9223372036854775807
   \<and> Text (page_number (running ok_session [Some 1] 9223372036854775807))
       = ''-9223372036854775808/1''"
proof -
  let ?P = "running ok_session [Some 1, Some 2, Some 3] 1"
  let ?Q = "running ok_session [Some 1] 9223372036854775807"
  have a: "pages ?P \<noteq> []" and b: "None \<notin> set (pages ?P)"
    and c: "- 9223372036854775808 \<le> index ?P \<and> index ?P < 9223372036854775807"
    and a': "pages ?Q \<noteq> []" and b': "None \<notin> set (pages ?Q)"
    and c': "index ?Q = 9223372036854775807"
    by (simp_all add: fixture_defs)
  note every = setPageNumber_every_page [OF a b, of world0]
  note every' = setPageNumber_every_page [OF a' b', of world0]
  have run: "setPageNumber ?P world0 =
      (Return None, ?P,
       world0\<lparr>embeds := (\<lambda>a. if Some a \<in> set (pages ?P)
                                then (embeds world0 a)\<lparr>Footer := Some (page_number ?P)\<rparr>
                                else embeds world0 a)\<rparr>)"
    by (rule every [THEN conjunct1])
  have "Text (page_number ?P) =
          show_int (index ?P + 1) @ ''/'' @ show_int (int (length (pages ?P)))"
    by (rule every [THEN conjunct2, THEN conjunct2, THEN conjunct1, THEN mp, OF c])
  also have "\<dots> = ''2/3''"
    by (simp add: show_int_def digit_def fixture_defs)
  finally have t: "Text (page_number ?P) = ''2/3''" .
  have "page_number ?P =
          \<lparr>Text = show_int (wrap_int (index ?P + 1)) @ ''/'' @ show_int (int (length (pages ?P))),
           IconURL = [], ProxyIconURL = []\<rparr>"
    by (rule every [THEN conjunct2, THEN conjunct1])
  also have "\<dots> = \<lparr>Text = ''2/3'', IconURL = [], ProxyIconURL = []\<rparr>"
    by (simp add: show_int_def digit_def wrap_int_def fixture_defs)
  finally have f: "page_number ?P = \<lparr>Text = ''2/3'', IconURL = [], ProxyIconURL = []\<rparr>" .
  have r1: "fst (setPageNumber ?P world0) = Return None"
    unfolding run by simp
  have r2: "Footer (embeds (snd (snd (setPageNumber ?P world0))) 3)
              = Some \<lparr>Text = ''2/3'', IconURL = [], ProxyIconURL = []\<rparr>"
    unfolding run f by (simp add: fixture_defs)
  have r3: "embeds (snd (snd (setPageNumber ?P world0))) 4 = embeds world0 4"
    unfolding run f by (simp add: fixture_defs)
  have "Text (page_number ?Q) =
          ''-9223372036854775808/'' @ show_int (int (length (pages ?Q)))"
    by (rule every' [THEN conjunct2, THEN conjunct2, THEN conjunct2, THEN mp, OF c'])
  also have "\<dots> = ''-9223372036854775808/1''"
    by (simp add: show_int_def digit_def fixture_defs)
  finally have t': "Text (page_number ?Q) = ''-9223372036854775808/1''" .
  from a b r1 r2 r3 t c' t' show ?thesis by blast
qed

section \<open>Properties of the configuration loader\<close>

text \<open>
  C10. When \<open>Stat\<close> and \<open>ReadFile\<close> succeed for the path, \<^verbatim>\<open>GetConfig\<close> returns nil whatever
  \<open>Unmarshal\<close> returns, an error included: the result holds no trace of that error, only the
  output value as \<open>Unmarshal\<close> left it, and no file is written.
\<close>

theorem GetConfig_discards_unmarshal_error:
  assumes "Stat env path = None" and "ReadFile env path = Inr file"
  shows "GetConfig env path output = (None, snd (Unmarshal env file output), [])"
  using assms by (simp add: GetConfig_def)

theorem GetConfig_discards_unmarshal_error_witness:
  "Stat yaml_env ''config.yml'' = None \<and> ReadFile yaml_env ''config.yml'' = Inr ''{{{''
   \<and> fst (Unmarshal yaml_env ''{{{'' ''defaults'') = Some ''yaml: did not find expected node''
   \<and> GetConfig yaml_env ''config.yml'' ''defaults'' = (None, ''defaults'', [])"
proof -
  have a: "Stat yaml_env ''config.yml'' = None"
    and b: "ReadFile yaml_env ''config.yml'' = Inr ''{{{''"
    by (simp_all add: yaml_env_def)
  show ?thesis
    using GetConfig_discards_unmarshal_error [OF a b, of "''defaults''"] a b
    by (simp add: yaml_env_def)
qed

end
